theory Spec2Isabelle
  imports Main
begin

section \<open>JavaScript values and failures\<close>

text \<open>
  The values that travel through the adapters are parsed JSON bodies and the object
  literals the code builds from them. An object is the list of its own enumerable
  properties in the order ECMAScript enumerates them, with distinct names. Numbers are
  integers here; ObjectIds and Dates are natural numbers and are written into a body as
  numbers.
\<close>

datatype json =
    JUndefined
  | JNull
  | JBool bool
  | JNum int
  | JStr string
  | JArr "json list"
  | JObj "(string \<times> json) list"

type_synonym js_object = "(string \<times> json) list"

text \<open>
  What a handler or an adapter can throw: the repository's \<open>AppError(message, statusCode,
  code)\<close>; a \<open>TypeError\<close> of the engine (a property read on \<open>null\<close> or
  \<open>undefined\<close>, a call of something that is not a function, a value that cannot be
  converted to a string); Mongoose's \<open>CastError\<close> for an identifier that is no ObjectId;
  the driver's duplicate-key error (\<open>MongoServerError\<close> with code 11000); and any other
  rejection of a write by the storage layer, under a name that the error handler has no
  case for.
\<close>

datatype js_error =
    AppError (message: string) (statusCode: nat) (code: string)
  | TypeError
  | CastError
  | DuplicateKeyError
  | StorageError

fun bind_err :: "'e + 'a \<Rightarrow> ('a \<Rightarrow> 'e + 'b) \<Rightarrow> 'e + 'b" where
  "bind_err (Inl e) f = Inl e"
| "bind_err (Inr v) f = f v"

text \<open>\<open>try { body } catch (error) { handler }\<close>\<close>

fun try_catch :: "'e + 'a \<Rightarrow> ('e \<Rightarrow> 'e + 'a) \<Rightarrow> 'e + 'a" where
  "try_catch (Inl e) h = h e"
| "try_catch (Inr v) h = Inr v"

text \<open>\<open>Array.prototype.map\<close> with a callback that may throw: the first throw ends it.\<close>

fun map_err :: "('a \<Rightarrow> 'e + 'b) \<Rightarrow> 'a list \<Rightarrow> 'e + 'b list" where
  "map_err f [] = Inr []"
| "map_err f (x # xs) =
     (case f x of
        Inl e \<Rightarrow> Inl e
      | Inr y \<Rightarrow> (case map_err f xs of Inl e \<Rightarrow> Inl e | Inr ys \<Rightarrow> Inr (y # ys)))"

fun nullish :: "json \<Rightarrow> bool" where
  "nullish JUndefined = True"
| "nullish JNull = True"
| "nullish _ = False"

text \<open>The values \<open>||\<close> does not skip.\<close>

fun truthy :: "json \<Rightarrow> bool" where
  "truthy JUndefined = False"
| "truthy JNull = False"
| "truthy (JBool b) = b"
| "truthy (JNum n) = (n \<noteq> 0)"
| "truthy (JStr s) = (s \<noteq> [])"
| "truthy (JArr _) = True"
| "truthy (JObj _) = True"

definition js_or :: "json \<Rightarrow> json \<Rightarrow> json" where
  "js_or a b = (if truthy a then a else b)"

text \<open>
  A read \<open>v.name\<close> on a value that is neither \<open>null\<close> nor \<open>undefined\<close>. The code reads
  fixed identifier names only (never \<open>length\<close> or an index), so on anything but an object
  the read gives \<open>undefined\<close>.
\<close>

fun member :: "json \<Rightarrow> string \<Rightarrow> json" where
  "member (JObj kvs) k = (case map_of kvs k of Some v \<Rightarrow> v | None \<Rightarrow> JUndefined)"
| "member _ k = JUndefined"

text \<open>\<open>v.name\<close>\<close>

definition get_prop :: "json \<Rightarrow> string \<Rightarrow> js_error + json" where
  "get_prop v k = (if nullish v then Inl TypeError else Inr (member v k))"

text \<open>\<open>v?.name\<close>\<close>

definition opt_prop :: "json \<Rightarrow> string \<Rightarrow> json" where
  "opt_prop v k = (if nullish v then JUndefined else member v k)"

text \<open>\<open>Object.values(v)\<close>\<close>

fun object_values :: "json \<Rightarrow> js_error + json list" where
  "object_values JUndefined = Inl TypeError"
| "object_values JNull = Inl TypeError"
| "object_values (JObj kvs) = Inr (map snd kvs)"
| "object_values (JArr xs) = Inr xs"
| "object_values (JStr s) = Inr (map (\<lambda>c. JStr [c]) s)"
| "object_values _ = Inr []"

text \<open>
  The text of a number. On the integers up to \<open>2^53\<close> in absolute value, which are the
  integers among the numbers of the engine without gaps, \<open>String(v)\<close> is the decimal
  numeral. Beyond them it is the shortest decimal that reads back as the same double,
  possibly with an exponent; that is floating-point arithmetic, and the value is left open
  here.
\<close>

fun digits :: "nat \<Rightarrow> string" where
  "digits n =
     (if n < 10 then [''0123456789'' ! n]
      else digits (n div 10) @ [''0123456789'' ! (n mod 10)])"

definition show_int :: "int \<Rightarrow> string" where
  "show_int i = (if i < 0 then CHR ''-'' # digits (nat (- i)) else digits (nat i))"

definition number_text :: "int \<Rightarrow> string" where
  "number_text i = (if \<bar>i\<bar> \<le> 2 ^ 53 then show_int i else undefined)"

text \<open>
  \<open>String(v)\<close>, which the \<open>Error\<close> constructor applies to its message argument. An
  array is joined with commas, \<open>null\<close> and \<open>undefined\<close> elements giving the empty string.
  A parsed object has \<open>Object.prototype.toString\<close> unless it has a property \<open>toString\<close>
  of its own; that property is no function, \<open>valueOf\<close> gives no primitive either, and the
  conversion throws a \<open>TypeError\<close>.
\<close>

fun js_ToString :: "json \<Rightarrow> js_error + string"
  and js_join :: "json list \<Rightarrow> js_error + string" where
  "js_ToString JUndefined = Inr ''undefined''"
| "js_ToString JNull = Inr ''null''"
| "js_ToString (JBool b) = Inr (if b then ''true'' else ''false'')"
| "js_ToString (JNum n) = Inr (number_text n)"
| "js_ToString (JStr s) = Inr s"
| "js_ToString (JArr xs) = js_join xs"
| "js_ToString (JObj kvs) =
     (if ''toString'' \<in> set (map fst kvs) then Inl TypeError else Inr ''[object Object]'')"
| "js_join [] = Inr []"
| "js_join (x # xs) =
     (case (if nullish x then Inr [] else js_ToString x) of
        Inl e \<Rightarrow> Inl e
      | Inr s \<Rightarrow>
          (if xs = [] then Inr s
           else (case js_join xs of Inl e \<Rightarrow> Inl e | Inr rest \<Rightarrow> Inr (s @ '','' @ rest))))"

section \<open>Provider client factory (esp-service.factory.ts)\<close>

text \<open>\<open>s.split(c)\<close> for a one-character separator.\<close>

fun split_on :: "char \<Rightarrow> string \<Rightarrow> string list" where
  "split_on c [] = [[]]"
| "split_on c (x # xs) =
     (if x = c then [] # split_on c xs
      else (case split_on c xs of [] \<Rightarrow> [[x]] | p # ps \<Rightarrow> (x # p) # ps))"

definition extractDataCenterFromMailchimpKey :: "string \<Rightarrow> string option" where
  "extractDataCenterFromMailchimpKey apiKey =
     (let parts = split_on CHR ''-'' apiKey
      in if length parts = 2 then Some (parts ! 1) else None)"

definition is_hex :: "char \<Rightarrow> bool" where
  "is_hex c = (c \<in> set ''0123456789abcdefABCDEF'')"

definition is_digit :: "char \<Rightarrow> bool" where
  "is_digit c = (c \<in> set ''0123456789'')"

definition is_alnum :: "char \<Rightarrow> bool" where
  "is_alnum c =
     (c \<in> set ''abcdefghijklmnopqrstuvwxyzABCDEFGHIJKLMNOPQRSTUVWXYZ0123456789'')"

text \<open>\<open>/^[a-fA-F0-9]{32}-us\d+$/\<close>\<close>

definition mailchimp_key_format :: "string \<Rightarrow> bool" where
  "mailchimp_key_format k =
     (length (take 32 k) = 32 \<and> list_all is_hex (take 32 k)
      \<and> take 3 (drop 32 k) = ''-us''
      \<and> drop 35 k \<noteq> [] \<and> list_all is_digit (drop 35 k))"

text \<open>\<open>/^[a-zA-Z0-9]{20,}$/\<close>\<close>

definition getresponse_key_format :: "string \<Rightarrow> bool" where
  "getresponse_key_format k = (20 \<le> length k \<and> list_all is_alnum k)"

definition validateApiKeyFormat :: "string \<Rightarrow> string \<Rightarrow> bool" where
  "validateApiKeyFormat provider apiKey =
     (if provider = ''mailchimp'' then mailchimp_key_format apiKey
      else if provider = ''getresponse'' then getresponse_key_format apiKey
      else False)"

text \<open>
  An adapter instance. A field that the caller left out is \<open>None\<close>. The key and the data
  center fix the base address and the authorisation header of the instance.
\<close>

datatype service =
    MailchimpService "string option" string
  | GetResponseService "string option"

text \<open>
  \<open>MailchimpService.extractDataCenter\<close>, run by the constructor when no data center is
  passed.
\<close>

definition extractDataCenter :: "string option \<Rightarrow> js_error + string" where
  "extractDataCenter apiKey =
     (case apiKey of
        None \<Rightarrow> Inl TypeError
      | Some k \<Rightarrow>
          (let parts = split_on CHR ''-'' k
           in if length parts \<noteq> 2
              then Inl (AppError ''Invalid Mailchimp API key format. Expected format: xxxxxxxx-usXX''
                          400 ''INVALID_API_KEY_FORMAT'')
              else Inr (parts ! 1)))"

text \<open>\<open>this.dataCenter = dataCenter || this.extractDataCenter(apiKey)\<close>\<close>

definition new_MailchimpService :: "string option \<Rightarrow> string option \<Rightarrow> js_error + service" where
  "new_MailchimpService apiKey dataCenter =
     (case dataCenter of
        Some d \<Rightarrow>
          (if d \<noteq> [] then Inr (MailchimpService apiKey d)
           else bind_err (extractDataCenter apiKey) (\<lambda>d'. Inr (MailchimpService apiKey d')))
      | None \<Rightarrow> bind_err (extractDataCenter apiKey) (\<lambda>d'. Inr (MailchimpService apiKey d')))"

definition createService :: "string \<Rightarrow> string option \<Rightarrow> string option \<Rightarrow> js_error + service" where
  "createService provider apiKey dataCenter =
     (if provider = ''mailchimp'' then new_MailchimpService apiKey dataCenter
      else if provider = ''getresponse'' then Inr (GetResponseService apiKey)
      else Inl (AppError (''Unsupported ESP provider: '' @ provider) 400 ''UNSUPPORTED_PROVIDER''))"

section \<open>Provider clients (mailchimp.service.ts, getresponse.service.ts)\<close>

text \<open>
  What one outbound request comes back as: the promise of the HTTP client is fulfilled
  with a response, or rejected with an error that carries the response (a status outside
  2xx), or no response and possibly a code (\<open>ECONNABORTED\<close> after the 30 s timeout).
  A client is the sequence of outcomes of the requests an adapter instance makes, in
  order; it is the environment's choice.
\<close>

record axios_response =
  status :: nat
  data :: json

record axios_error =
  response :: "axios_response option"
  ecode :: "string option"

datatype axios_outcome = Fulfilled axios_response | Rejected axios_error

type_synonym client = "nat \<Rightarrow> axios_outcome"

text \<open>
  \<open>new AppError(message, statusCode, code)\<close>: \<open>super(message)\<close> converts the message
  to a string, and throws when that throws. In a result, \<open>Inl\<close> is what was thrown and
  \<open>Inr\<close> is the new error.
\<close>

definition new_AppError :: "json \<Rightarrow> nat \<Rightarrow> string \<Rightarrow> js_error + js_error" where
  "new_AppError m sc cd =
     (case js_ToString m of Inl e \<Rightarrow> Inl e | Inr s \<Rightarrow> Inr (AppError s sc cd))"

definition mailchimp_handleApiError :: "axios_error \<Rightarrow> js_error + js_error" where
  "mailchimp_handleApiError error =
     (case response error of
        Some r \<Rightarrow>
          (if status r = 401
             then new_AppError (JStr ''Invalid Mailchimp API key or insufficient permissions'') 401
                    ''MAILCHIMP_UNAUTHORIZED''
           else if status r = 404
             then new_AppError (JStr ''Mailchimp resource not found'') 404 ''MAILCHIMP_NOT_FOUND''
           else if status r = 429
             then new_AppError (JStr ''Mailchimp API rate limit exceeded'') 429
                    ''MAILCHIMP_RATE_LIMIT''
           else new_AppError (js_or (opt_prop (data r) ''detail'') (JStr ''Mailchimp API error''))
                  (status r) ''MAILCHIMP_API_ERROR'')
      | None \<Rightarrow>
          (if ecode error = Some ''ECONNABORTED''
             then new_AppError (JStr ''Mailchimp API request timeout'') 408 ''MAILCHIMP_TIMEOUT''
           else new_AppError (JStr ''Mailchimp service unavailable'') 503
                  ''MAILCHIMP_SERVICE_ERROR''))"

definition getresponse_handleApiError :: "axios_error \<Rightarrow> js_error + js_error" where
  "getresponse_handleApiError error =
     (case response error of
        Some r \<Rightarrow>
          (if status r = 401
             then new_AppError (JStr ''Invalid GetResponse API key or insufficient permissions'')
                    401 ''GETRESPONSE_UNAUTHORIZED''
           else if status r = 404
             then new_AppError (JStr ''GetResponse resource not found'') 404
                    ''GETRESPONSE_NOT_FOUND''
           else if status r = 429
             then new_AppError (JStr ''GetResponse API rate limit exceeded'') 429
                    ''GETRESPONSE_RATE_LIMIT''
           else if status r = 400
             then new_AppError
                    (js_or (opt_prop (data r) ''message'') (JStr ''Bad request to GetResponse API''))
                    400 ''GETRESPONSE_BAD_REQUEST''
           else new_AppError (js_or (opt_prop (data r) ''message'') (JStr ''GetResponse API error''))
                  (status r) ''GETRESPONSE_API_ERROR'')
      | None \<Rightarrow>
          (if ecode error = Some ''ECONNABORTED''
             then new_AppError (JStr ''GetResponse API request timeout'') 408
                    ''GETRESPONSE_TIMEOUT''
           else new_AppError (JStr ''GetResponse service unavailable'') 503
                  ''GETRESPONSE_SERVICE_ERROR''))"

text \<open>
  \<open>Promise.reject(this.handleApiError(error))\<close> in the response interceptor: the request
  is rejected with the error that \<open>handleApiError\<close> returns, or with what it throws.
\<close>

definition rejection :: "js_error + js_error \<Rightarrow> js_error" where
  "rejection h = (case h of Inl thrown \<Rightarrow> thrown | Inr returned \<Rightarrow> returned)"

text \<open>
  \<open>this.apiClient.get(url)\<close> behind the response interceptor: a fulfilled request passes
  through, a rejected one is rejected again as above. The argument is the outcome of the
  request.
\<close>

definition mailchimp_get :: "axios_outcome \<Rightarrow> js_error + axios_response" where
  "mailchimp_get out =
     (case out of
        Fulfilled r \<Rightarrow> Inr r
      | Rejected e \<Rightarrow> Inl (rejection (mailchimp_handleApiError e)))"

definition getresponse_get :: "axios_outcome \<Rightarrow> js_error + axios_response" where
  "getresponse_get out =
     (case out of
        Fulfilled r \<Rightarrow> Inr r
      | Rejected e \<Rightarrow> Inl (rejection (getresponse_handleApiError e)))"

record validation_result =
  isValid :: bool
  vprovider :: string
  verror :: "string option"
  accountInfo :: "js_object option"

text \<open>The \<open>catch\<close> block shared by both \<open>validateConnection\<close>.\<close>

definition validation_failed :: "string \<Rightarrow> js_error \<Rightarrow> js_error + validation_result" where
  "validation_failed p error =
     Inr \<lparr>isValid = False, vprovider = p,
          verror = Some (case error of AppError m _ _ \<Rightarrow> m | _ \<Rightarrow> ''Connection validation failed''),
          accountInfo = None\<rparr>"

definition mailchimp_validateConnection :: "client \<Rightarrow> js_error + validation_result" where
  "mailchimp_validateConnection c =
     try_catch
       (bind_err (mailchimp_get (c 0)) (\<lambda>r.
        bind_err (get_prop (data r) ''account_name'') (\<lambda>accountName.
        bind_err (get_prop (data r) ''email'') (\<lambda>email.
        bind_err (get_prop (data r) ''role'') (\<lambda>role.
        bind_err (get_prop (data r) ''account_id'') (\<lambda>accountId.
          Inr \<lparr>isValid = True, vprovider = ''mailchimp'', verror = None,
               accountInfo = Some [(''accountName'', accountName), (''email'', email),
                                   (''role'', role), (''accountId'', accountId)]\<rparr>))))))
       (validation_failed ''mailchimp'')"

definition getresponse_validateConnection :: "client \<Rightarrow> js_error + validation_result" where
  "getresponse_validateConnection c =
     try_catch
       (bind_err (getresponse_get (c 0)) (\<lambda>r.
        bind_err (get_prop (data r) ''accountId'') (\<lambda>accountId.
        bind_err (get_prop (data r) ''email'') (\<lambda>email.
        bind_err (get_prop (data r) ''firstName'') (\<lambda>firstName.
        bind_err (get_prop (data r) ''lastName'') (\<lambda>lastName.
        bind_err (get_prop (data r) ''phone'') (\<lambda>phone.
        bind_err (get_prop (data r) ''state'') (\<lambda>state.
        bind_err (get_prop (data r) ''zipCode'') (\<lambda>zipCode.
          Inr \<lparr>isValid = True, vprovider = ''getresponse'', verror = None,
               accountInfo = Some [(''accountId'', accountId), (''email'', email),
                                   (''firstName'', firstName), (''lastName'', lastName),
                                   (''phone'', phone), (''state'', state),
                                   (''zipCode'', zipCode)]\<rparr>)))))))))
       (validation_failed ''getresponse'')"

text \<open>The callback of \<open>response.data.lists.map\<close> in \<open>MailchimpService.getLists\<close>.\<close>

definition mailchimp_list :: "json \<Rightarrow> js_error + js_object" where
  "mailchimp_list l =
     bind_err (get_prop l ''id'') (\<lambda>i.
     bind_err (get_prop l ''name'') (\<lambda>n.
     bind_err (get_prop l ''stats'') (\<lambda>stats.
     bind_err (get_prop l ''subscribe_url_long'') (\<lambda>url.
     bind_err (get_prop l ''date_created'') (\<lambda>created.
       Inr [(''id'', i), (''name'', n),
            (''memberCount'', js_or (opt_prop stats ''member_count'') (JNum 0)),
            (''subscribeUrlLong'', url), (''dateCreated'', created)])))))"

text \<open>\<open>xs.map(f)\<close> where \<open>xs\<close> came out of a body: only an array has the method.\<close>

definition array_map :: "(json \<Rightarrow> js_error + 'b) \<Rightarrow> json \<Rightarrow> js_error + 'b list" where
  "array_map f v = (case v of JArr xs \<Rightarrow> map_err f xs | _ \<Rightarrow> Inl TypeError)"

text \<open>
  \<open>MailchimpService.getLists\<close>: the count request, then the page request, whose \<open>count\<close>
  parameter is \<open>Math.min(totalItems, 1000)\<close>. The \<open>catch\<close> block logs and throws the error
  again. The second component is the number of requests sent.
\<close>

definition mailchimp_getLists :: "client \<Rightarrow> (js_error + js_object list) \<times> nat" where
  "mailchimp_getLists c =
     (case bind_err (mailchimp_get (c 0)) (\<lambda>countResponse.
             get_prop (data countResponse) ''total_items'') of
        Inl e \<Rightarrow> (try_catch (Inl e) Inl, 1)
      | Inr totalItems \<Rightarrow>
          (try_catch
             (bind_err (mailchimp_get (c 1)) (\<lambda>r.
              bind_err (get_prop (data r) ''lists'') (\<lambda>lists.
                array_map mailchimp_list lists)))
             Inl, 2))"

text \<open>The callback of \<open>campaigns.map\<close> in \<open>GetResponseService.getLists\<close>.\<close>

definition getresponse_campaign :: "json \<Rightarrow> js_error + js_object" where
  "getresponse_campaign campaign =
     bind_err (get_prop campaign ''campaignId'') (\<lambda>i.
     bind_err (get_prop campaign ''name'') (\<lambda>n.
     bind_err (get_prop campaign ''description'') (\<lambda>d.
     bind_err (get_prop campaign ''createdOn'') (\<lambda>created.
       Inr [(''campaignId'', i), (''name'', n),
            (''description'', js_or d (JStr [])), (''createdOn'', created)]))))"

text \<open>
  \<open>Array.isArray(response.data) ? response.data : Object.values(response.data)\<close>
\<close>

definition campaigns_of :: "json \<Rightarrow> js_error + json list" where
  "campaigns_of d = (case d of JArr xs \<Rightarrow> Inr xs | _ \<Rightarrow> object_values d)"

definition getresponse_getLists :: "client \<Rightarrow> (js_error + js_object list) \<times> nat" where
  "getresponse_getLists c =
     (try_catch
        (bind_err (getresponse_get (c 0)) (\<lambda>r.
         bind_err (campaigns_of (data r)) (\<lambda>campaigns.
           map_err getresponse_campaign campaigns)))
        Inl, 1)"

text \<open>The two operations of the uniform contract that the controller calls.\<close>

definition validateConnection :: "service \<Rightarrow> client \<Rightarrow> js_error + validation_result" where
  "validateConnection s c =
     (case s of
        MailchimpService _ _ \<Rightarrow> mailchimp_validateConnection c
      | GetResponseService _ \<Rightarrow> getresponse_validateConnection c)"

definition getLists :: "service \<Rightarrow> client \<Rightarrow> (js_error + js_object list) \<times> nat" where
  "getLists s c =
     (case s of
        MailchimpService _ _ \<Rightarrow> mailchimp_getLists c
      | GetResponseService _ \<Rightarrow> getresponse_getLists c)"

section \<open>Credential records and their collection (models/Integration.ts)\<close>

type_synonym object_id = nat

text \<open>
  A document of the collection. In the collection every path of the schema is stored; in
  a document that a query returns, \<open>apiKey\<close> is present only when the query selected it
  (\<open>select: false\<close> in the schema, \<open>.select('+apiKey')\<close> at the call).
\<close>

record integration =
  ident :: object_id
  provider :: string
  apiKey :: "string option"
  dataCenter :: "string option"
  isActive :: bool
  lastVerified :: "nat option"
  createdAt :: nat
  updatedAt :: nat

type_synonym store = "integration list"


definition unselect :: "integration \<Rightarrow> integration" where
  "unselect r = r\<lparr>apiKey := None\<rparr>"

text \<open>\<open>findOne({provider, isActive: true})\<close>\<close>

definition findOne_active :: "store \<Rightarrow> string \<Rightarrow> integration option" where
  "findOne_active st p =
     map_option unselect (find (\<lambda>r. provider r = p \<and> isActive r) st)"

text \<open>
  The identifier of a request is the string of the route parameter. Mongoose casts it to
  an ObjectId before it queries: a string of 24 hexadecimal digits is the ObjectId of that
  value, in either case of the letters, and any other string is no ObjectId.
\<close>

definition hex_digit :: "char \<Rightarrow> nat" where
  "hex_digit c =
     (if c \<in> set ''0123456789'' then of_char c - 48
      else if c \<in> set ''abcdef'' then of_char c - 87
      else of_char c - 55)"

definition castObjectId :: "string \<Rightarrow> object_id option" where
  "castObjectId s =
     (if length s = 24 \<and> list_all (\<lambda>c. c \<in> set ''0123456789abcdefABCDEF'') s
      then Some (foldl (\<lambda>n c. 16 * n + hex_digit c) 0 s)
      else None)"

text \<open>
  \<open>findById(id)\<close>, as stored; the caller selects. The query is rejected with a
  \<open>CastError\<close> when the identifier cannot be cast.
\<close>

definition findById :: "store \<Rightarrow> string \<Rightarrow> js_error + integration option" where
  "findById st i =
     (case castObjectId i of
        None \<Rightarrow> Inl CastError
      | Some j \<Rightarrow> Inr (find (\<lambda>r. ident r = j) st))"

text \<open>
  \<open>find(filter)\<close> with \<open>filter = {isActive: true}\<close> and, when a provider is given,
  \<open>filter.provider = provider\<close>.
\<close>

definition find_active :: "store \<Rightarrow> string option \<Rightarrow> integration list" where
  "find_active st f =
     filter (\<lambda>r. isActive r \<and> (case f of None \<Rightarrow> True | Some p \<Rightarrow> provider r = p)) st"

text \<open>
  \<open>doc.save()\<close> on a document that a query returned writes the modified paths to the
  stored document with its \<open>_id\<close>.
\<close>

fun updateOne :: "object_id \<Rightarrow> (integration \<Rightarrow> integration) \<Rightarrow> store \<Rightarrow> store" where
  "updateOne i f [] = []"
| "updateOne i f (r # rs) = (if ident r = i then f r # rs else r # updateOne i f rs)"

text \<open>
  The storage layer may reject a write (\<open>ok\<close> is its answer); the collection is then as
  it was. An insert under an \<open>_id\<close> that is taken is rejected with the duplicate-key
  error. The schema declares no unique index besides the one on \<open>_id\<close>: the indexes on
  \<open>provider\<close>, on \<open>isActive\<close> and on both are plain ones, so an insert is not rejected
  for the provider of the document.
\<close>

definition save_changes ::
  "bool \<Rightarrow> object_id \<Rightarrow> (integration \<Rightarrow> integration) \<Rightarrow> store \<Rightarrow> js_error + store" where
  "save_changes ok i f st = (if ok then Inr (updateOne i f st) else Inl StorageError)"

definition save_new :: "bool \<Rightarrow> integration \<Rightarrow> store \<Rightarrow> js_error + store" where
  "save_new ok doc st =
     (if \<not> ok then Inl StorageError
      else if ident doc \<in> set (map ident st) then Inl DuplicateKeyError
      else Inr (st @ [doc]))"

text \<open>
  The plain object of a document, which Mongoose hands to the \<open>toJSON\<close> transform of the
  schema, and the transform.
\<close>

definition opt_field :: "string \<Rightarrow> json option \<Rightarrow> js_object" where
  "opt_field k v = (case v of Some x \<Rightarrow> [(k, x)] | None \<Rightarrow> [])"

definition toObject :: "integration \<Rightarrow> js_object" where
  "toObject r =
     [(''_id'', JNum (int (ident r))), (''provider'', JStr (provider r))]
     @ opt_field ''apiKey'' (map_option JStr (apiKey r))
     @ opt_field ''dataCenter'' (map_option JStr (dataCenter r))
     @ [(''isActive'', JBool (isActive r))]
     @ opt_field ''lastVerified'' (map_option (\<lambda>t. JNum (int t)) (lastVerified r))
     @ [(''createdAt'', JNum (int (createdAt r))), (''updatedAt'', JNum (int (updatedAt r))),
        (''__v'', JNum 0)]"

definition delete_prop :: "string \<Rightarrow> js_object \<Rightarrow> js_object" where
  "delete_prop k ret = filter (\<lambda>kv. fst kv \<noteq> k) ret"

definition toJSON :: "integration \<Rightarrow> js_object" where
  "toJSON r = delete_prop ''apiKey'' (delete_prop ''__v'' (toObject r))"

section \<open>Integration controller (controllers/integration.controller.ts)\<close>

text \<open>
  What the environment decides during one request: the clock (every \<open>new Date()\<close> of
  one request reads the same time), the \<open>_id\<close> that a new document gets, and whether the
  storage layer accepts a write.
\<close>

record env =
  now :: nat
  newId :: object_id
  saveOk :: bool

record http_response =
  res_status :: nat
  res_body :: json

text \<open>
  What a handler leaves behind: the response or the error it throws, the collection, and
  the number of requests that went out to a provider.
\<close>

record outcome =
  reply :: "js_error + http_response"
  db :: store
  requests :: nat

definition opt_json :: "json option \<Rightarrow> json" where
  "opt_json v = (case v of Some x \<Rightarrow> x | None \<Rightarrow> JUndefined)"

definition envelope :: "nat \<Rightarrow> js_object \<Rightarrow> json" where
  "envelope t d =
     JObj [(''success'', JBool True), (''data'', JObj d),
           (''meta'', JObj [(''timestamp'', JNum (int t))])]"

definition create_data :: "integration \<Rightarrow> validation_result \<Rightarrow> js_object" where
  "create_data i v =
     [(''id'', JNum (int (ident i))),
      (''provider'', JStr (provider i)),
      (''dataCenter'', opt_json (map_option JStr (dataCenter i))),
      (''isActive'', JBool (isActive i)),
      (''lastVerified'', opt_json (map_option (\<lambda>t. JNum (int t)) (lastVerified i))),
      (''createdAt'', JNum (int (createdAt i))),
      (''updatedAt'', JNum (int (updatedAt i))),
      (''accountInfo'', opt_json (map_option JObj (accountInfo v)))]"

text \<open>\<open>extractDataCenterFromMailchimpKey(apiKey) || undefined\<close>, for Mailchimp only.\<close>

definition derive_dataCenter :: "string \<Rightarrow> string \<Rightarrow> string option" where
  "derive_dataCenter p k =
     (if p = ''mailchimp''
      then (case extractDataCenterFromMailchimpKey k of
              Some d \<Rightarrow> (if d \<noteq> [] then Some d else None)
            | None \<Rightarrow> None)
      else None)"

text \<open>The paths that the update branch of \<open>createESPIntegration\<close> sets, and the timestamp.\<close>

definition overwrite :: "string \<Rightarrow> string option \<Rightarrow> nat \<Rightarrow> integration \<Rightarrow> integration" where
  "overwrite k dc t r = r\<lparr>apiKey := Some k, dataCenter := dc, lastVerified := Some t, updatedAt := t\<rparr>"

text \<open>
  \<open>createESPIntegration\<close>. The handler awaits \<open>findOne\<close> and, later, \<open>save\<close>; between
  the two the event loop runs other requests, which may write. So the handler meets two
  values of the collection: \<open>st\<close>, on which \<open>findOne\<close> is answered, and \<open>st2\<close>, on
  which \<open>save\<close> acts. The outcome holds the collection after the handler: \<open>st2\<close> with
  the write, or \<open>st2\<close> as it is when the handler writes nothing.
\<close>

definition createESPIntegration_steps ::
  "env \<Rightarrow> client \<Rightarrow> store \<Rightarrow> store \<Rightarrow> string \<Rightarrow> string \<Rightarrow> outcome" where
  "createESPIntegration_steps ev c st st2 p k =
     (let dc = derive_dataCenter p k in
      if p = ''mailchimp'' \<and> dc = None then
        \<lparr>reply = Inl (AppError ''Invalid Mailchimp API key format. Expected format: xxxxxxxx-usXX''
                         400 ''INVALID_MAILCHIMP_KEY''),
         db = st2, requests = 0\<rparr>
      else if \<not> validateApiKeyFormat p k then
        \<lparr>reply = Inl (AppError (''Invalid '' @ p @ '' API key format'') 400 ''INVALID_API_KEY_FORMAT''),
         db = st2, requests = 0\<rparr>
      else
        (case createService p (Some k) dc of
           Inl e \<Rightarrow> \<lparr>reply = Inl e, db = st2, requests = 0\<rparr>
         | Inr service \<Rightarrow>
             (case validateConnection service c of
                Inl e \<Rightarrow> \<lparr>reply = Inl e, db = st2, requests = 1\<rparr>
              | Inr v \<Rightarrow>
                  if \<not> isValid v then
                    \<lparr>reply = Inl (AppError
                                    (case verror v of
                                       Some m \<Rightarrow> (if m \<noteq> [] then m
                                                  else ''Failed to validate ESP connection'')
                                     | None \<Rightarrow> ''Failed to validate ESP connection'')
                                    401 ''ESP_CONNECTION_FAILED''),
                     db = st2, requests = 1\<rparr>
                  else
                    (case findOne_active st p of
                       Some existing \<Rightarrow>
                         (case save_changes (saveOk ev) (ident existing) (overwrite k dc (now ev)) st2 of
                            Inl e \<Rightarrow> \<lparr>reply = Inl e, db = st2, requests = 1\<rparr>
                          | Inr st' \<Rightarrow>
                              \<lparr>reply = Inr \<lparr>res_status = 200,
                                            res_body = envelope (now ev)
                                              (create_data (overwrite k dc (now ev) existing) v)\<rparr>,
                               db = st', requests = 1\<rparr>)
                     | None \<Rightarrow>
                         (let doc = \<lparr>ident = newId ev, provider = p, apiKey = Some k,
                                     dataCenter = dc, isActive = True,
                                     lastVerified = Some (now ev),
                                     createdAt = now ev, updatedAt = now ev\<rparr>
                          in case save_new (saveOk ev) doc st2 of
                               Inl e \<Rightarrow> \<lparr>reply = Inl e, db = st2, requests = 1\<rparr>
                             | Inr st' \<Rightarrow>
                                 \<lparr>reply = Inr \<lparr>res_status = 201,
                                               res_body = envelope (now ev) (create_data doc v)\<rparr>,
                                  db = st', requests = 1\<rparr>)))))"

text \<open>The handler when no other request writes between its \<open>findOne\<close> and its \<open>save\<close>.\<close>

definition createESPIntegration :: "env \<Rightarrow> client \<Rightarrow> store \<Rightarrow> string \<Rightarrow> string \<Rightarrow> outcome" where
  "createESPIntegration ev c st p k = createESPIntegration_steps ev c st st p k"

text \<open>
  \<open>{...list, provider: integration.provider, integrationId: integration._id}\<close>: a
  property that the object has already is overwritten where it stands, a new one comes
  last.
\<close>

fun set_prop :: "string \<Rightarrow> json \<Rightarrow> js_object \<Rightarrow> js_object" where
  "set_prop k v [] = [(k, v)]"
| "set_prop k v (kv # kvs) = (if fst kv = k then (k, v) # kvs else kv # set_prop k v kvs)"

definition with_provider :: "integration \<Rightarrow> js_object \<Rightarrow> js_object" where
  "with_provider i l =
     set_prop ''integrationId'' (JNum (int (ident i))) (set_prop ''provider'' (JStr (provider i)) l)"

definition error_marker :: "integration \<Rightarrow> js_object" where
  "error_marker i =
     [(''provider'', JStr (provider i)), (''integrationId'', JNum (int (ident i))),
      (''error'', JStr ''Failed to fetch lists from this provider'')]"

text \<open>
  \<open>service.getLists()\<close> for one integration, inside the \<open>try\<close> of the loop: the adapter
  is built from the stored credentials and talks to the client that the environment gives
  this integration.
\<close>

definition lists_of :: "(object_id \<Rightarrow> client) \<Rightarrow> integration \<Rightarrow> (js_error + js_object list) \<times> nat" where
  "lists_of cs i =
     (case createService (provider i) (apiKey i) (dataCenter i) of
        Inl e \<Rightarrow> (Inl e, 0)
      | Inr service \<Rightarrow> getLists service (cs (ident i)))"

text \<open>The body of the loop: what one integration pushes on \<open>allLists\<close>.\<close>

definition pushed :: "(object_id \<Rightarrow> client) \<Rightarrow> integration \<Rightarrow> js_object list" where
  "pushed cs i =
     (case try_catch
             (bind_err (fst (lists_of cs i)) (\<lambda>lists. Inr (map (with_provider i) lists)))
             (\<lambda>error. Inr [error_marker i]) of
        Inr entries \<Rightarrow> entries
      | Inl e \<Rightarrow> [])"

fun fetch_loop ::
  "(object_id \<Rightarrow> client) \<Rightarrow> js_object list \<Rightarrow> nat \<Rightarrow> integration list \<Rightarrow> js_object list \<times> nat" where
  "fetch_loop cs allLists n [] = (allLists, n)"
| "fetch_loop cs allLists n (i # is) =
     fetch_loop cs (allLists @ pushed cs i) (n + snd (lists_of cs i)) is"

text \<open>\<open>[...new Set(xs)]\<close>: the first occurrence of each value, in order.\<close>

definition set_values :: "'a list \<Rightarrow> 'a list" where
  "set_values xs = foldl (\<lambda>seen x. if x \<in> set seen then seen else seen @ [x]) [] xs"

definition lists_data :: "js_object list \<Rightarrow> js_object" where
  "lists_data allLists =
     [(''lists'', JArr (map JObj allLists)),
      (''totalCount'', JNum (int (length allLists))),
      (''providers'', JArr (set_values (map (\<lambda>l. member (JObj l) ''provider'') allLists)))]"

text \<open>
  The query parameter \<open>provider\<close> is absent (\<open>None\<close>) or a string; \<open>if (provider)\<close>
  takes the empty string as absent.
\<close>

definition provider_filter :: "string option \<Rightarrow> string option" where
  "provider_filter q = (case q of Some p \<Rightarrow> (if p \<noteq> [] then Some p else None) | None \<Rightarrow> None)"

text \<open>\<open>getESPLists\<close>. The handler writes nothing.\<close>

definition getESPLists ::
  "env \<Rightarrow> (object_id \<Rightarrow> client) \<Rightarrow> store \<Rightarrow> string option \<Rightarrow> (js_error + http_response) \<times> nat" where
  "getESPLists ev cs st q =
     (let f = provider_filter q in
      if (case f of Some p \<Rightarrow> p \<noteq> ''mailchimp'' \<and> p \<noteq> ''getresponse'' | None \<Rightarrow> False) then
        (Inl (AppError ''Invalid provider. Must be \"mailchimp\" or \"getresponse\"'' 400
                ''INVALID_PROVIDER''), 0)
      else
        (let integrations = find_active st f in
         if length integrations = 0 then
           (Inl (AppError
                   (case f of
                      Some p \<Rightarrow> ''No active '' @ p @ '' integrations found''
                    | None \<Rightarrow> ''No active integrations found'')
                   404 ''NO_INTEGRATIONS''), 0)
         else
           (case fetch_loop cs [] 0 integrations of
              (allLists, n) \<Rightarrow>
                (Inr \<lparr>res_status = 200, res_body = envelope (now ev) (lists_data allLists)\<rparr>, n))))"

definition getIntegrations :: "env \<Rightarrow> store \<Rightarrow> http_response" where
  "getIntegrations ev st =
     (let integrations = map unselect (find_active st None) in
      \<lparr>res_status = 200,
       res_body = envelope (now ev)
         [(''integrations'', JArr (map (\<lambda>i. JObj (toJSON i)) integrations)),
          (''totalCount'', JNum (int (length integrations)))]\<rparr>)"

text \<open>
  \<open>deleteIntegration\<close>. A save with no modified path writes nothing, so deactivating an
  inactive record leaves the collection as it is.
\<close>

definition deactivate :: "nat \<Rightarrow> integration \<Rightarrow> integration" where
  "deactivate t r = r\<lparr>isActive := False, updatedAt := t\<rparr>"

definition deleteIntegration :: "env \<Rightarrow> store \<Rightarrow> string \<Rightarrow> outcome" where
  "deleteIntegration ev st i =
     (case findById st i of
        Inl e \<Rightarrow> \<lparr>reply = Inl e, db = st, requests = 0\<rparr>
      | Inr None \<Rightarrow>
          \<lparr>reply = Inl (AppError ''Integration not found'' 404 ''INTEGRATION_NOT_FOUND''),
           db = st, requests = 0\<rparr>
      | Inr (Some integration) \<Rightarrow>
          (case (if isActive integration
                 then save_changes (saveOk ev) (ident integration) (deactivate (now ev)) st
                 else Inr st) of
             Inl e \<Rightarrow> \<lparr>reply = Inl e, db = st, requests = 0\<rparr>
           | Inr st' \<Rightarrow>
               \<lparr>reply = Inr \<lparr>res_status = 200,
                             res_body = envelope (now ev)
                               [(''message'', JStr ''Integration deactivated successfully'')]\<rparr>,
                db = st', requests = 0\<rparr>))"

definition test_data :: "validation_result \<Rightarrow> nat option \<Rightarrow> js_object" where
  "test_data v verified =
     [(''isValid'', JBool (isValid v)),
      (''provider'', JStr (vprovider v)),
      (''error'', opt_json (map_option JStr (verror v))),
      (''accountInfo'', opt_json (map_option JObj (accountInfo v))),
      (''lastVerified'', opt_json (map_option (\<lambda>t. JNum (int t)) verified))]"

definition verified_at :: "nat \<Rightarrow> integration \<Rightarrow> integration" where
  "verified_at t r = r\<lparr>lastVerified := Some t, updatedAt := t\<rparr>"

text \<open>
  \<open>testIntegration\<close>. Setting \<open>lastVerified\<close> to the time it holds already modifies no
  path, and the save then writes nothing.
\<close>

definition testIntegration :: "env \<Rightarrow> client \<Rightarrow> store \<Rightarrow> string \<Rightarrow> outcome" where
  "testIntegration ev c st i =
     (case findById st i of
        Inl e \<Rightarrow> \<lparr>reply = Inl e, db = st, requests = 0\<rparr>
      | Inr None \<Rightarrow>
          \<lparr>reply = Inl (AppError ''Integration not found or inactive'' 404 ''INTEGRATION_NOT_FOUND''),
           db = st, requests = 0\<rparr>
      | Inr (Some integration) \<Rightarrow>
          if \<not> isActive integration then
            \<lparr>reply = Inl (AppError ''Integration not found or inactive'' 404 ''INTEGRATION_NOT_FOUND''),
             db = st, requests = 0\<rparr>
          else
            (case createService (provider integration) (apiKey integration) (dataCenter integration) of
               Inl e \<Rightarrow> \<lparr>reply = Inl e, db = st, requests = 0\<rparr>
             | Inr service \<Rightarrow>
                 (case validateConnection service c of
                    Inl e \<Rightarrow> \<lparr>reply = Inl e, db = st, requests = 1\<rparr>
                  | Inr v \<Rightarrow>
                      if isValid v then
                        (case (if lastVerified integration = Some (now ev) then Inr st
                               else save_changes (saveOk ev) (ident integration)
                                      (verified_at (now ev)) st) of
                           Inl e \<Rightarrow> \<lparr>reply = Inl e, db = st, requests = 1\<rparr>
                         | Inr st' \<Rightarrow>
                             \<lparr>reply = Inr \<lparr>res_status = 200,
                                           res_body = envelope (now ev) (test_data v (Some (now ev)))\<rparr>,
                              db = st', requests = 1\<rparr>)
                      else
                        \<lparr>reply = Inr \<lparr>res_status = 200,
                                      res_body = envelope (now ev)
                                        (test_data v (lastVerified integration))\<rparr>,
                         db = st, requests = 1\<rparr>)))"


section \<open>Properties and sample inputs\<close>

text \<open>
  At most one active record per provider: the providers of the active records are
  pairwise different.
\<close>

definition one_active_per_provider :: "store \<Rightarrow> bool" where
  "one_active_per_provider st = distinct (map provider (filter isActive st))"

text \<open>
  The key formats in the words of the specification: a Mailchimp key is a secret of 32
  hexadecimal digits followed by the region suffix (a hyphen, \<open>us\<close> and one or more
  decimal digits); a GetResponse key is alphanumeric and at least 20 characters long; no
  other provider has keys. A key that is not of this form is syntactically invalid: a part
  of it has the wrong length or a character outside its set.
\<close>

definition well_formed_key :: "string \<Rightarrow> string \<Rightarrow> bool" where
  "well_formed_key p k =
     (if p = ''mailchimp'' then
        (\<exists>secret region. k = secret @ ''-us'' @ region
           \<and> length secret = 32 \<and> (\<forall>c \<in> set secret. is_hex c)
           \<and> region \<noteq> [] \<and> (\<forall>c \<in> set region. is_digit c))
      else if p = ''getresponse'' then 20 \<le> length k \<and> (\<forall>c \<in> set k. is_alnum c)
      else False)"

text \<open>A clock reading, a free identifier and a storage layer that accepts writes.\<close>

definition sample_env :: env where
  "sample_env = \<lparr>now = 1000, newId = 7, saveOk = True\<rparr>"


text \<open>
  A later request with an identifier of its own; and a request at the time that the first
  sample record was verified last, with a storage layer that rejects writes.
\<close>

definition second_env :: env where
  "second_env = \<lparr>now = 1001, newId = 8, saveOk = True\<rparr>"


text \<open>
  Route parameters: the identifiers 1, 2 and 9 as ObjectIds, and a string that is no
  ObjectId.
\<close>

definition id_1 :: string where
  "id_1 = ''000000000000000000000001''"




text \<open>An upstream that answers every request with an account payload.\<close>

definition account_response :: axios_response where
  "account_response =
     \<lparr>status = 200,
      data = JObj [(''account_name'', JStr ''Acme''), (''accountId'', JStr ''a1''),
                   (''email'', JStr ''ops@acme.test'')]\<rparr>"

definition account_client :: client where
  "account_client n = Fulfilled account_response"

text \<open>An upstream that rejects the credentials, one that never answers in time, and one
  that answers 200 with the body \<open>null\<close>.\<close>

definition unauthorized_error :: axios_error where
  "unauthorized_error =
     \<lparr>response = Some \<lparr>status = 401, data = JObj [(''detail'', JStr ''API key invalid'')]\<rparr>,
      ecode = None\<rparr>"

definition unauthorized_client :: client where
  "unauthorized_client n = Rejected unauthorized_error"


definition null_response :: axios_response where
  "null_response = \<lparr>status = 200, data = JNull\<rparr>"

definition null_client :: client where
  "null_client n = Fulfilled null_response"

definition valid_mailchimp_key :: string where
  "valid_mailchimp_key = ''00112233445566778899aabbccddeeff-us10''"

definition valid_getresponse_key :: string where
  "valid_getresponse_key = ''abcdefghij0123456789''"

definition other_getresponse_key :: string where
  "other_getresponse_key = ''ABCDEFGHIJ0123456789''"

text \<open>
  An upstream that answers 500 with a message that has a \<open>toString\<close> property of its
  own.
\<close>

definition unconvertible_error :: axios_error where
  "unconvertible_error =
     \<lparr>response = Some \<lparr>status = 500,
                          data = JObj [(''detail'', JObj [(''toString'', JNum 1)]),
                                       (''message'', JObj [(''toString'', JNum 1)])]\<rparr>,
      ecode = None\<rparr>"

definition unconvertible_client :: client where
  "unconvertible_client n = Rejected unconvertible_error"

text \<open>An active Mailchimp record and a deactivated GetResponse record.\<close>

definition sample_store :: store where
  "sample_store =
     [\<lparr>ident = 1, provider = ''mailchimp'',
       apiKey = Some ''0123456789abcdef0123456789abcdef-us10'', dataCenter = Some ''us10'',
       isActive = True, lastVerified = Some 10, createdAt = 10, updatedAt = 10\<rparr>,
      \<lparr>ident = 2, provider = ''getresponse'',
       apiKey = Some ''abcdefghij0123456789'', dataCenter = None,
       isActive = False, lastVerified = Some 20, createdAt = 20, updatedAt = 30\<rparr>]"



text \<open>
  A Mailchimp upstream whose page request answers with a keyed mapping under \<open>lists\<close>,
  and one that answers with an array.
\<close>

definition news_list :: json where
  "news_list = JObj [(''id'', JStr ''l1''), (''name'', JStr ''News'')]"


definition array_lists_client :: client where
  "array_lists_client n =
     (if n = 0 then Fulfilled \<lparr>status = 200, data = JObj [(''total_items'', JNum 1)]\<rparr>
      else Fulfilled \<lparr>status = 200, data = JObj [(''lists'', JArr [news_list])]\<rparr>)"




text \<open>The names of the properties of an object.\<close>

fun keys_of :: "json \<Rightarrow> string list" where
  "keys_of (JObj kvs) = map fst kvs"
| "keys_of _ = []"

text \<open>
  Two active records, and an environment in which the Mailchimp account answers with one
  list and the GetResponse account refuses the credentials.
\<close>

definition active_mailchimp :: integration where
  "active_mailchimp =
     \<lparr>ident = 1, provider = ''mailchimp'',
      apiKey = Some ''0123456789abcdef0123456789abcdef-us10'', dataCenter = Some ''us10'',
      isActive = True, lastVerified = Some 10, createdAt = 10, updatedAt = 10\<rparr>"

definition active_getresponse :: integration where
  "active_getresponse =
     \<lparr>ident = 3, provider = ''getresponse'',
      apiKey = Some ''abcdefghij0123456789'', dataCenter = None,
      isActive = True, lastVerified = Some 20, createdAt = 20, updatedAt = 30\<rparr>"

definition two_active_store :: store where
  "two_active_store = [active_mailchimp, active_getresponse]"

definition one_failing :: "object_id \<Rightarrow> client" where
  "one_failing i = (if i = 1 then array_lists_client else unauthorized_client)"


text \<open>
  Two submissions for GetResponse that overlap: both are answered by \<open>findOne\<close> on the
  sample collection, which has no active GetResponse record; then the first saves, and
  the second saves on what the first has left.
\<close>

definition first_submission :: outcome where
  "first_submission =
     createESPIntegration_steps sample_env account_client sample_store sample_store
       ''getresponse'' valid_getresponse_key"

definition second_submission :: outcome where
  "second_submission =
     createESPIntegration_steps second_env account_client sample_store (db first_submission)
       ''getresponse'' other_getresponse_key"

section \<open>The invariant of the collection\<close>

lemma count_le_one_distinct:
  "distinct (map f xs) \<longleftrightarrow> (\<forall>y. length (filter (\<lambda>x. f x = y) xs) \<le> 1)"
proof (induction xs)
  case Nil
  show ?case by simp
next
  case (Cons a xs)
  show ?case
  proof
    assume d: "distinct (map f (a # xs))"
    then have na: "f a \<notin> f ` set xs" and dx: "distinct (map f xs)" by auto
    from na have z: "filter (\<lambda>x. f x = f a) xs = []"
      unfolding filter_empty_conv by (metis imageI)
    show "\<forall>y. length (filter (\<lambda>x. f x = y) (a # xs)) \<le> 1"
      using Cons.IH dx z by auto
  next
    assume h: "\<forall>y. length (filter (\<lambda>x. f x = y) (a # xs)) \<le> 1"
    then have "length (filter (\<lambda>x. f x = f a) (a # xs)) \<le> 1" by blast
    then have z: "filter (\<lambda>x. f x = f a) xs = []" by simp
    then have na: "f a \<notin> f ` set xs" by (auto simp: filter_empty_conv)
    have "\<forall>y. length (filter (\<lambda>x. f x = y) xs) \<le> 1"
    proof
      fix y
      from h have "length (filter (\<lambda>x. f x = y) (a # xs)) \<le> 1" by blast
      then show "length (filter (\<lambda>x. f x = y) xs) \<le> 1" by (simp split: if_splits)
    qed
    with Cons.IH have "distinct (map f xs)" by simp
    with na show "distinct (map f (a # xs))" by simp
  qed
qed

text \<open>
  The invariant, counted: for each provider value the collection holds at most one record
  of that provider with \<open>isActive = true\<close>.
\<close>

lemma one_active_count:
  "one_active_per_provider st \<longleftrightarrow>
     (\<forall>p. length (filter (\<lambda>r. provider r = p \<and> isActive r) st) \<le> 1)"
proof -
  have "\<And>p. filter (\<lambda>r. provider r = p \<and> isActive r) st
           = filter (\<lambda>r. provider r = p) (filter isActive st)"
    by (simp add: conj_commute)
  then show ?thesis
    unfolding one_active_per_provider_def count_le_one_distinct by simp
qed

lemma updateOne_same_key:
  assumes "\<And>r. provider (f r) = provider r \<and> isActive (f r) = isActive r"
  shows "map provider (filter isActive (updateOne i f st)) = map provider (filter isActive st)"
  by (induction st) (auto simp: assms)

lemma updateOne_deactivate_subset:
  "set (map provider (filter isActive (updateOne i (deactivate t) st)))
     \<subseteq> set (map provider (filter isActive st))"
  by (induction st) (auto simp: deactivate_def)

lemma updateOne_deactivate_distinct:
  "distinct (map provider (filter isActive st)) \<Longrightarrow>
   distinct (map provider (filter isActive (updateOne i (deactivate t) st)))"
proof (induction st)
  case Nil
  show ?case by simp
next
  case (Cons r rs)
  show ?case
  proof (cases "ident r = i")
    case True
    with Cons.prems show ?thesis by (auto simp: deactivate_def split: if_splits)
  next
    case False
    with Cons.prems Cons.IH updateOne_deactivate_subset [of i t rs] show ?thesis
      by auto
  qed
qed

lemma findOne_active_None:
  "findOne_active st p = None \<Longrightarrow> p \<notin> set (map provider (filter isActive st))"
  by (auto simp: findOne_active_def find_None_iff)

lemma create_keeps_one_active:
  assumes "one_active_per_provider st"
  shows "one_active_per_provider (db (createESPIntegration ev c st p k))"
  using assms findOne_active_None [of st p]
  unfolding createESPIntegration_def createESPIntegration_steps_def one_active_per_provider_def
  by (auto simp: Let_def save_changes_def save_new_def overwrite_def updateOne_same_key
           split: sum.splits option.splits if_splits)

lemma test_keeps_one_active:
  assumes "one_active_per_provider st"
  shows "one_active_per_provider (db (testIntegration ev c st i))"
  using assms
  unfolding testIntegration_def one_active_per_provider_def
  by (auto simp: save_changes_def verified_at_def updateOne_same_key
           split: sum.splits option.splits if_splits)

lemma delete_keeps_one_active:
  assumes "one_active_per_provider st"
  shows "one_active_per_provider (db (deleteIntegration ev st i))"
  using assms
  unfolding deleteIntegration_def one_active_per_provider_def
  by (auto simp: save_changes_def updateOne_deactivate_distinct
           split: sum.splits option.splits if_splits)

lemma updateOne_idents:
  assumes "\<And>r. ident (f r) = ident r"
  shows "map ident (updateOne i f st) = map ident st"
  by (induction st) (simp_all add: assms)

lemma delete_keeps_idents: "map ident (db (deleteIntegration ev st i)) = map ident st"
  unfolding deleteIntegration_def
  by (auto simp: save_changes_def deactivate_def updateOne_idents
           split: sum.splits option.splits if_splits)

text \<open>
  Run one after the other, the operations that write (create-or-verify, re-test,
  deactivate) keep the invariant, whatever the environment does, and a deactivation
  removes no record.
\<close>

lemma serial_runs_keep_one_active:
  assumes "one_active_per_provider st"
  shows "one_active_per_provider (db (createESPIntegration ev c st p k))
         \<and> one_active_per_provider (db (testIntegration ev c st i))
         \<and> one_active_per_provider (db (deleteIntegration ev st j))
         \<and> map ident (db (deleteIntegration ev st j)) = map ident st"
  using assms
  by (simp add: create_keeps_one_active test_keeps_one_active delete_keeps_one_active
      delete_keeps_idents)

text \<open>
  C1 does not hold of the code at every time. The handler looks the active record up and
  saves in two separate steps, and no unique index stands behind it: when two submissions
  for one provider overlap, so that both look up before either saves, both find no active
  record, both insert and are answered 201, and the collection, which had at most one
  active record per provider, has two active GetResponse records.
\<close>

theorem overlapping_submissions_two_active:
  "one_active_per_provider sample_store
   \<and> findOne_active sample_store ''getresponse'' = None
   \<and> map_sum id res_status (reply first_submission) = Inr 201
   \<and> map_sum id res_status (reply second_submission) = Inr 201
   \<and> map provider (filter isActive (db second_submission))
       = [''mailchimp'', ''getresponse'', ''getresponse'']
   \<and> \<not> one_active_per_provider (db second_submission)"
  by (simp add: one_active_per_provider_def findOne_active_def sample_store_def
      first_submission_def second_submission_def createESPIntegration_steps_def Let_def
      derive_dataCenter_def validateApiKeyFormat_def getresponse_key_format_def is_alnum_def
      valid_getresponse_key_def other_getresponse_key_def createService_def
      validateConnection_def getresponse_validateConnection_def getresponse_get_def
      account_client_def account_response_def get_prop_def save_new_def sample_env_def
      second_env_def)

section \<open>Key format before the network\<close>

lemma mailchimp_key_format_iff:
  "mailchimp_key_format k \<longleftrightarrow>
     (\<exists>secret region. k = secret @ ''-us'' @ region
        \<and> length secret = 32 \<and> (\<forall>c \<in> set secret. is_hex c)
        \<and> region \<noteq> [] \<and> (\<forall>c \<in> set region. is_digit c))"
proof
  assume f: "mailchimp_key_format k"
  then have t: "take 3 (drop 32 k) = ''-us''"
    by (simp add: mailchimp_key_format_def)
  have "k = take 32 k @ drop 32 k" by simp
  also have "drop 32 k = take 3 (drop 32 k) @ drop 3 (drop 32 k)"
    by (simp only: append_take_drop_id)
  also have "\<dots> = ''-us'' @ drop 35 k" using t by simp
  finally have d: "k = take 32 k @ ''-us'' @ drop 35 k" .
  from f have "length (take 32 k) = 32 \<and> (\<forall>c \<in> set (take 32 k). is_hex c)
        \<and> drop 35 k \<noteq> [] \<and> (\<forall>c \<in> set (drop 35 k). is_digit c)"
    by (simp add: mailchimp_key_format_def list_all_iff)
  with d show "\<exists>secret region. k = secret @ ''-us'' @ region
        \<and> length secret = 32 \<and> (\<forall>c \<in> set secret. is_hex c)
        \<and> region \<noteq> [] \<and> (\<forall>c \<in> set region. is_digit c)"
    by blast
next
  assume "\<exists>secret region. k = secret @ ''-us'' @ region
        \<and> length secret = 32 \<and> (\<forall>c \<in> set secret. is_hex c)
        \<and> region \<noteq> [] \<and> (\<forall>c \<in> set region. is_digit c)"
  then obtain secret region where k: "k = secret @ ''-us'' @ region"
    and s: "length secret = 32" "\<forall>c \<in> set secret. is_hex c"
    and r: "region \<noteq> []" "\<forall>c \<in> set region. is_digit c"
    by blast
  from k s(1) have "take 32 k = secret" "drop 32 k = ''-us'' @ region" "drop 35 k = region"
    by simp_all
  with s r show "mailchimp_key_format k"
    by (simp add: mailchimp_key_format_def list_all_iff)
qed

text \<open>The format test of the factory accepts the well-formed keys and no others.\<close>

lemma validateApiKeyFormat_well_formed:
  "validateApiKeyFormat p k \<longleftrightarrow> well_formed_key p k"
  by (simp add: validateApiKeyFormat_def well_formed_key_def mailchimp_key_format_iff
      getresponse_key_format_def list_all_iff)

text \<open>
  Keys of a wrong length or with a character outside the set are not well formed: a
  GetResponse key under 20 characters or with a character that is no letter or digit; a
  Mailchimp key too short to hold the secret, the suffix and a digit, or with a character
  among its first 32 that is no hexadecimal digit, or with a character after the suffix
  that is no decimal digit.
\<close>

lemma wrong_length_or_charset:
  "length k < 20 \<Longrightarrow> \<not> well_formed_key ''getresponse'' k"
  "c \<in> set k \<Longrightarrow> \<not> is_alnum c \<Longrightarrow> \<not> well_formed_key ''getresponse'' k"
  "length k < 36 \<Longrightarrow> \<not> well_formed_key ''mailchimp'' k"
  "c \<in> set (take 32 k) \<Longrightarrow> \<not> is_hex c \<Longrightarrow> \<not> well_formed_key ''mailchimp'' k"
  "c \<in> set (drop 35 k) \<Longrightarrow> \<not> is_digit c \<Longrightarrow> \<not> well_formed_key ''mailchimp'' k"
  "p \<noteq> ''mailchimp'' \<Longrightarrow> p \<noteq> ''getresponse'' \<Longrightarrow> \<not> well_formed_key p k"
  by (auto simp: well_formed_key_def)

text \<open>
  C3. For every syntactically invalid key, \<open>validateApiKeyFormat\<close> returns false and the
  create-or-verify flow throws an error of status 400; no request has gone out to a
  provider, the collection is as it was, and the outcome does not depend on the client at
  all: the adapter is never asked.
\<close>

theorem invalid_key_rejected_before_network:
  assumes "\<not> well_formed_key p k"
  shows "\<not> validateApiKeyFormat p k
         \<and> (\<exists>m c. reply (createESPIntegration ev cl st p k) = Inl (AppError m 400 c))
         \<and> requests (createESPIntegration ev cl st p k) = 0
         \<and> db (createESPIntegration ev cl st p k) = st
         \<and> createESPIntegration ev cl' st p k = createESPIntegration ev cl st p k"
proof -
  from assms have n: "\<not> validateApiKeyFormat p k"
    by (simp add: validateApiKeyFormat_well_formed)
  then show ?thesis
    unfolding createESPIntegration_def createESPIntegration_steps_def
    by (auto simp: Let_def)
qed

theorem invalid_key_rejected_before_network_witness:
  "\<not> well_formed_key ''getresponse'' ''short''
   \<and> (\<exists>m c. reply (createESPIntegration sample_env account_client sample_store
                     ''getresponse'' ''short'') = Inl (AppError m 400 c))
   \<and> requests (createESPIntegration sample_env account_client sample_store
                 ''getresponse'' ''short'') = 0
   \<and> db (createESPIntegration sample_env account_client sample_store
           ''getresponse'' ''short'') = sample_store
   \<and> \<not> well_formed_key ''getresponse'' ''abcdefghij01234567!9''
   \<and> \<not> validateApiKeyFormat ''getresponse'' ''abcdefghij01234567!9''
   \<and> \<not> well_formed_key ''mailchimp'' ''00112233445566778899aabbccddeef-us10''
   \<and> \<not> validateApiKeyFormat ''mailchimp'' ''00112233445566778899aabbccddeef-us10''
   \<and> \<not> well_formed_key ''mailchimp'' ''00112233445566778899aabbccddeefg-us10''
   \<and> requests (createESPIntegration sample_env account_client sample_store
                 ''mailchimp'' ''00112233445566778899aabbccddeefg-us10'') = 0
   \<and> \<not> well_formed_key ''mailchimp'' ''00112233445566778899aabbccddeeff-usx1''
   \<and> (\<exists>m c. reply (createESPIntegration sample_env account_client sample_store
                     ''mailchimp'' ''00112233445566778899aabbccddeeff-usx1'')
                = Inl (AppError m 400 c))"
proof -
  have 1: "\<not> well_formed_key ''getresponse'' ''short''"
    by (rule wrong_length_or_charset(1)) simp
  have 2: "\<not> well_formed_key ''getresponse'' ''abcdefghij01234567!9''"
    by (rule wrong_length_or_charset(2) [of "CHR ''!''"]) (simp_all add: is_alnum_def)
  have 3: "\<not> well_formed_key ''mailchimp'' ''00112233445566778899aabbccddeef-us10''"
    by (rule wrong_length_or_charset(4) [of "CHR ''-''"]) (simp_all add: is_hex_def)
  have 4: "\<not> well_formed_key ''mailchimp'' ''00112233445566778899aabbccddeefg-us10''"
    by (rule wrong_length_or_charset(4) [of "CHR ''g''"]) (simp_all add: is_hex_def)
  have 5: "\<not> well_formed_key ''mailchimp'' ''00112233445566778899aabbccddeeff-usx1''"
    by (rule wrong_length_or_charset(5) [of "CHR ''x''"]) (simp_all add: is_digit_def)
  note t = invalid_key_rejected_before_network
  from t [OF 1, of sample_env account_client sample_store]
    t [OF 2, of sample_env account_client sample_store]
    t [OF 3, of sample_env account_client sample_store]
    t [OF 4, of sample_env account_client sample_store]
    t [OF 5, of sample_env account_client sample_store]
    1 2 3 4 5
  show ?thesis by blast
qed

section \<open>Created or updated\<close>



lemma sample_create_mailchimp:
  "\<exists>resp. reply (createESPIntegration sample_env account_client sample_store
             ''mailchimp'' valid_mailchimp_key) = Inr resp"
  by (simp add: createESPIntegration_def createESPIntegration_steps_def Let_def derive_dataCenter_def validateApiKeyFormat_def
      mailchimp_key_format_def is_hex_def is_digit_def createService_def validateConnection_def
      new_MailchimpService_def extractDataCenterFromMailchimpKey_def valid_mailchimp_key_def
      mailchimp_validateConnection_def mailchimp_get_def account_client_def
      account_response_def get_prop_def
      findOne_active_def sample_store_def save_changes_def sample_env_def)



section \<open>Validating a connection\<close>



text \<open>
  C7. For both adapters and every outcome of the upstream request, \<open>validateConnection\<close>
  returns a result and throws nothing. A valid result carries the account information and
  no error; an invalid one carries an error string. A rejected request (credentials
  refused, timeout, unexpected status, no response) gives an invalid result whose error
  is the message of the translated error (and the fixed text when the translation itself
  threw); a fulfilled request gives a valid result with
  the account fields read from the body, unless the body is \<open>null\<close> or \<open>undefined\<close>,
  which gives an invalid result as well.
\<close>

theorem validateConnection_never_raises:
  "(\<exists>v. mailchimp_validateConnection c = Inr v
       \<and> vprovider v = ''mailchimp''
       \<and> (isValid v \<longrightarrow> verror v = None \<and> accountInfo v \<noteq> None)
       \<and> (\<not> isValid v \<longrightarrow> verror v \<noteq> None \<and> accountInfo v = None)
       \<and> (\<forall>e. c 0 = Rejected e \<longrightarrow>
             \<not> isValid v
             \<and> verror v = Some (case rejection (mailchimp_handleApiError e) of
                                  AppError m sc cd \<Rightarrow> m
                                | _ \<Rightarrow> ''Connection validation failed''))
       \<and> (\<forall>r. c 0 = Fulfilled r \<and> nullish (data r) \<longrightarrow>
             \<not> isValid v \<and> verror v = Some ''Connection validation failed'')
       \<and> (\<forall>r. c 0 = Fulfilled r \<and> \<not> nullish (data r) \<longrightarrow>
             isValid v
             \<and> accountInfo v = Some [(''accountName'', member (data r) ''account_name''),
                                     (''email'', member (data r) ''email''),
                                     (''role'', member (data r) ''role''),
                                     (''accountId'', member (data r) ''account_id'')]))
   \<and> (\<exists>v. getresponse_validateConnection c = Inr v
       \<and> vprovider v = ''getresponse''
       \<and> (isValid v \<longrightarrow> verror v = None \<and> accountInfo v \<noteq> None)
       \<and> (\<not> isValid v \<longrightarrow> verror v \<noteq> None \<and> accountInfo v = None)
       \<and> (\<forall>e. c 0 = Rejected e \<longrightarrow>
             \<not> isValid v
             \<and> verror v = Some (case rejection (getresponse_handleApiError e) of
                                  AppError m sc cd \<Rightarrow> m
                                | _ \<Rightarrow> ''Connection validation failed''))
       \<and> (\<forall>r. c 0 = Fulfilled r \<and> nullish (data r) \<longrightarrow>
             \<not> isValid v \<and> verror v = Some ''Connection validation failed'')
       \<and> (\<forall>r. c 0 = Fulfilled r \<and> \<not> nullish (data r) \<longrightarrow>
             isValid v
             \<and> accountInfo v = Some [(''accountId'', member (data r) ''accountId''),
                                     (''email'', member (data r) ''email''),
                                     (''firstName'', member (data r) ''firstName''),
                                     (''lastName'', member (data r) ''lastName''),
                                     (''phone'', member (data r) ''phone''),
                                     (''state'', member (data r) ''state''),
                                     (''zipCode'', member (data r) ''zipCode'')]))"
proof (intro conjI)
  show "\<exists>v. mailchimp_validateConnection c = Inr v
       \<and> vprovider v = ''mailchimp''
       \<and> (isValid v \<longrightarrow> verror v = None \<and> accountInfo v \<noteq> None)
       \<and> (\<not> isValid v \<longrightarrow> verror v \<noteq> None \<and> accountInfo v = None)
       \<and> (\<forall>e. c 0 = Rejected e \<longrightarrow>
             \<not> isValid v
             \<and> verror v = Some (case rejection (mailchimp_handleApiError e) of
                                  AppError m sc cd \<Rightarrow> m
                                | _ \<Rightarrow> ''Connection validation failed''))
       \<and> (\<forall>r. c 0 = Fulfilled r \<and> nullish (data r) \<longrightarrow>
             \<not> isValid v \<and> verror v = Some ''Connection validation failed'')
       \<and> (\<forall>r. c 0 = Fulfilled r \<and> \<not> nullish (data r) \<longrightarrow>
             isValid v
             \<and> accountInfo v = Some [(''accountName'', member (data r) ''account_name''),
                                     (''email'', member (data r) ''email''),
                                     (''role'', member (data r) ''role''),
                                     (''accountId'', member (data r) ''account_id'')])"
  proof (cases "c 0")
    case (Fulfilled r)
    then show ?thesis
      by (cases "nullish (data r)")
         (simp_all add: mailchimp_validateConnection_def mailchimp_get_def get_prop_def
            validation_failed_def)
  next
    case (Rejected e)
    from Rejected show ?thesis
      by (simp add: mailchimp_validateConnection_def mailchimp_get_def validation_failed_def)
  qed
  show "\<exists>v. getresponse_validateConnection c = Inr v
       \<and> vprovider v = ''getresponse''
       \<and> (isValid v \<longrightarrow> verror v = None \<and> accountInfo v \<noteq> None)
       \<and> (\<not> isValid v \<longrightarrow> verror v \<noteq> None \<and> accountInfo v = None)
       \<and> (\<forall>e. c 0 = Rejected e \<longrightarrow>
             \<not> isValid v
             \<and> verror v = Some (case rejection (getresponse_handleApiError e) of
                                  AppError m sc cd \<Rightarrow> m
                                | _ \<Rightarrow> ''Connection validation failed''))
       \<and> (\<forall>r. c 0 = Fulfilled r \<and> nullish (data r) \<longrightarrow>
             \<not> isValid v \<and> verror v = Some ''Connection validation failed'')
       \<and> (\<forall>r. c 0 = Fulfilled r \<and> \<not> nullish (data r) \<longrightarrow>
             isValid v
             \<and> accountInfo v = Some [(''accountId'', member (data r) ''accountId''),
                                     (''email'', member (data r) ''email''),
                                     (''firstName'', member (data r) ''firstName''),
                                     (''lastName'', member (data r) ''lastName''),
                                     (''phone'', member (data r) ''phone''),
                                     (''state'', member (data r) ''state''),
                                     (''zipCode'', member (data r) ''zipCode'')])"
  proof (cases "c 0")
    case (Fulfilled r)
    then show ?thesis
      by (cases "nullish (data r)")
         (simp_all add: getresponse_validateConnection_def getresponse_get_def get_prop_def
            validation_failed_def)
  next
    case (Rejected e)
    from Rejected show ?thesis
      by (simp add: getresponse_validateConnection_def getresponse_get_def validation_failed_def)
  qed
qed

theorem validateConnection_never_raises_witness:
  "account_client 0 = Fulfilled account_response \<and> \<not> nullish (data account_response)
   \<and> (\<exists>v. mailchimp_validateConnection account_client = Inr v \<and> isValid v
          \<and> verror v = None
          \<and> accountInfo v = Some [(''accountName'', JStr ''Acme''),
                                  (''email'', JStr ''ops@acme.test''),
                                  (''role'', JUndefined), (''accountId'', JUndefined)])
   \<and> unauthorized_client 0 = Rejected unauthorized_error
   \<and> (\<exists>v. getresponse_validateConnection unauthorized_client = Inr v \<and> \<not> isValid v
          \<and> verror v = Some ''Invalid GetResponse API key or insufficient permissions'')
   \<and> null_client 0 = Fulfilled null_response \<and> nullish (data null_response)
   \<and> (\<exists>v. mailchimp_validateConnection null_client = Inr v \<and> \<not> isValid v
          \<and> verror v = Some ''Connection validation failed'')
   \<and> unconvertible_client 0 = Rejected unconvertible_error
   \<and> (\<exists>v. mailchimp_validateConnection unconvertible_client = Inr v \<and> \<not> isValid v
          \<and> verror v = Some ''Connection validation failed'')"
proof -
  have a: "account_client 0 = Fulfilled account_response \<and> \<not> nullish (data account_response)"
    by (simp add: account_client_def account_response_def)
  have m: "member (data account_response) ''account_name'' = JStr ''Acme''"
    "member (data account_response) ''email'' = JStr ''ops@acme.test''"
    "member (data account_response) ''role'' = JUndefined"
    "member (data account_response) ''account_id'' = JUndefined"
    by (simp_all add: account_response_def)
  have u: "unauthorized_client 0 = Rejected unauthorized_error"
    by (simp add: unauthorized_client_def)
  have um: "rejection (getresponse_handleApiError unauthorized_error)
              = AppError ''Invalid GetResponse API key or insufficient permissions'' 401
                  ''GETRESPONSE_UNAUTHORIZED''"
    by (simp add: getresponse_handleApiError_def unauthorized_error_def new_AppError_def
        rejection_def)
  have n: "null_client 0 = Fulfilled null_response \<and> nullish (data null_response)"
    by (simp add: null_client_def null_response_def)
  from validateConnection_never_raises [of account_client] a m
  have 1: "\<exists>v. mailchimp_validateConnection account_client = Inr v \<and> isValid v
          \<and> verror v = None
          \<and> accountInfo v = Some [(''accountName'', JStr ''Acme''),
                                  (''email'', JStr ''ops@acme.test''),
                                  (''role'', JUndefined), (''accountId'', JUndefined)]"
    by auto
  from validateConnection_never_raises [of unauthorized_client] u um
  have 2: "\<exists>v. getresponse_validateConnection unauthorized_client = Inr v \<and> \<not> isValid v
          \<and> verror v = Some ''Invalid GetResponse API key or insufficient permissions''"
    by auto
  from validateConnection_never_raises [of null_client] n
  have 3: "\<exists>v. mailchimp_validateConnection null_client = Inr v \<and> \<not> isValid v
          \<and> verror v = Some ''Connection validation failed''"
    by auto
  have x: "unconvertible_client 0 = Rejected unconvertible_error"
    by (simp add: unconvertible_client_def)
  have xm: "rejection (mailchimp_handleApiError unconvertible_error) = TypeError"
    by (simp add: mailchimp_handleApiError_def unconvertible_error_def new_AppError_def
        rejection_def opt_prop_def js_or_def)
  from validateConnection_never_raises [of unconvertible_client] x xm
  have 4: "\<exists>v. mailchimp_validateConnection unconvertible_client = Inr v \<and> \<not> isValid v
          \<and> verror v = Some ''Connection validation failed''"
    by auto
  from a u n x 1 2 3 4 show ?thesis by blast
qed

section \<open>Re-testing a stored integration\<close>


lemma member_envelope_data: "member (envelope t d) ''data'' = JObj d"
  by (simp add: envelope_def)










section \<open>Error translation\<close>








section \<open>Shapes of the list response\<close>






section \<open>Aggregate list fetch\<close>

lemma pushed_cases:
  "pushed cs i =
     (case fst (lists_of cs i) of
        Inl e \<Rightarrow> [error_marker i]
      | Inr ls \<Rightarrow> map (with_provider i) ls)"
  by (simp add: pushed_def split: sum.splits)

lemma fetch_loop_eq:
  "fetch_loop cs acc n ints
     = (acc @ concat (map (pushed cs) ints),
        n + sum_list (map (\<lambda>i. snd (lists_of cs i)) ints))"
  by (induction ints arbitrary: acc n) simp_all

lemma getESPLists_nonempty:
  assumes "f = None \<or> f = Some ''mailchimp'' \<or> f = Some ''getresponse''"
    and "find_active st f \<noteq> []"
  shows "getESPLists ev cs st f
           = (Inr \<lparr>res_status = 200,
                   res_body = envelope (now ev)
                     (lists_data (concat (map (pushed cs) (find_active st f))))\<rparr>,
              sum_list (map (\<lambda>i. snd (lists_of cs i)) (find_active st f)))"
  using assms
  by (auto simp: getESPLists_def provider_filter_def Let_def fetch_loop_eq)

lemma getESPLists_empty:
  assumes "f = None \<or> f = Some ''mailchimp'' \<or> f = Some ''getresponse''"
    and "find_active st f = []"
  shows "\<exists>m. getESPLists ev cs st f = (Inl (AppError m 404 ''NO_INTEGRATIONS''), 0)"
  using assms
  by (auto simp: getESPLists_def provider_filter_def Let_def)

text \<open>
  C2. For a list fetch with no provider filter or with one of the two providers as the
  filter: if no active record matches, the handler throws the 404 error
  \<open>NO_INTEGRATIONS\<close> and sends nothing; if some do, it answers with status 200, and the
  \<open>lists\<close> of the answer are, integration after integration, the lists of the
  integration tagged with it when its \<open>getLists\<close> returned, and one error marker when it
  threw. The marker carries the provider and the identifier of the record.
\<close>

theorem aggregate_tolerates_failure:
  assumes "f = None \<or> f = Some ''mailchimp'' \<or> f = Some ''getresponse''"
  shows "(find_active st f = [] \<longrightarrow>
            (\<exists>m. getESPLists ev cs st f = (Inl (AppError m 404 ''NO_INTEGRATIONS''), 0)))
         \<and> (find_active st f \<noteq> [] \<longrightarrow>
            (\<exists>resp n. getESPLists ev cs st f = (Inr resp, n)
               \<and> res_status resp = 200
               \<and> member (member (res_body resp) ''data'') ''lists''
                   = JArr (map JObj (concat (map
                       (\<lambda>i. case fst (lists_of cs i) of
                               Inl e \<Rightarrow> [error_marker i]
                             | Inr ls \<Rightarrow> map (with_provider i) ls)
                       (find_active st f))))))
         \<and> member (JObj (error_marker i)) ''provider'' = JStr (provider i)
         \<and> member (JObj (error_marker i)) ''integrationId'' = JNum (int (ident i))
         \<and> member (JObj (error_marker i)) ''error''
             = JStr ''Failed to fetch lists from this provider''"
proof (intro conjI impI)
  assume "find_active st f = []"
  with assms show "\<exists>m. getESPLists ev cs st f = (Inl (AppError m 404 ''NO_INTEGRATIONS''), 0)"
    by (rule getESPLists_empty)
next
  assume ne: "find_active st f \<noteq> []"
  have "pushed cs = (\<lambda>i. case fst (lists_of cs i) of
                               Inl e \<Rightarrow> [error_marker i]
                             | Inr ls \<Rightarrow> map (with_provider i) ls)"
    by (rule ext) (rule pushed_cases)
  with getESPLists_nonempty [OF assms ne, of ev cs]
  show "\<exists>resp n. getESPLists ev cs st f = (Inr resp, n)
               \<and> res_status resp = 200
               \<and> member (member (res_body resp) ''data'') ''lists''
                   = JArr (map JObj (concat (map
                       (\<lambda>i. case fst (lists_of cs i) of
                               Inl e \<Rightarrow> [error_marker i]
                             | Inr ls \<Rightarrow> map (with_provider i) ls)
                       (find_active st f))))"
    by (simp add: member_envelope_data lists_data_def)
qed (simp_all add: error_marker_def)

lemma sample_lists_of:
  "fst (lists_of one_failing (active_mailchimp))
     = Inr [[(''id'', JStr ''l1''), (''name'', JStr ''News''), (''memberCount'', JNum 0),
             (''subscribeUrlLong'', JUndefined), (''dateCreated'', JUndefined)]]"
  "fst (lists_of one_failing (active_getresponse))
     = Inl (AppError ''Invalid GetResponse API key or insufficient permissions'' 401
              ''GETRESPONSE_UNAUTHORIZED'')"
  by (simp_all add: lists_of_def active_mailchimp_def active_getresponse_def createService_def
      new_MailchimpService_def
      getLists_def one_failing_def mailchimp_getLists_def mailchimp_get_def
      array_lists_client_def get_prop_def array_map_def mailchimp_list_def news_list_def
      js_or_def opt_prop_def getresponse_getLists_def getresponse_get_def
      unauthorized_client_def unauthorized_error_def getresponse_handleApiError_def
      new_AppError_def rejection_def)

lemma sample_find_active:
  "find_active two_active_store None = [active_mailchimp, active_getresponse]"
  "find_active sample_store (Some ''getresponse'') = []"
  by (simp_all add: find_active_def two_active_store_def active_mailchimp_def
      active_getresponse_def sample_store_def)

theorem aggregate_tolerates_failure_witness:
  "find_active sample_store (Some ''getresponse'') = []
   \<and> (\<exists>m. getESPLists sample_env one_failing sample_store (Some ''getresponse'')
            = (Inl (AppError m 404 ''NO_INTEGRATIONS''), 0))
   \<and> find_active two_active_store None \<noteq> []
   \<and> (\<exists>resp n. getESPLists sample_env one_failing two_active_store None = (Inr resp, n)
         \<and> res_status resp = 200
         \<and> member (member (res_body resp) ''data'') ''lists''
             = JArr [JObj [(''id'', JStr ''l1''), (''name'', JStr ''News''),
                           (''memberCount'', JNum 0), (''subscribeUrlLong'', JUndefined),
                           (''dateCreated'', JUndefined), (''provider'', JStr ''mailchimp''),
                           (''integrationId'', JNum 1)],
                     JObj [(''provider'', JStr ''getresponse''), (''integrationId'', JNum 3),
                           (''error'', JStr ''Failed to fetch lists from this provider'')]])"
proof -
  have e: "find_active sample_store (Some ''getresponse'') = []"
    by (rule sample_find_active)
  have ne: "find_active two_active_store None \<noteq> []"
    by (simp add: sample_find_active)
  have f1: "Some ''getresponse'' = None \<or> Some ''getresponse'' = Some ''mailchimp''
            \<or> Some ''getresponse'' = Some ''getresponse''"
    by simp
  have f2: "(None :: string option) = None \<or> None = Some ''mailchimp''
            \<or> None = Some ''getresponse''"
    by simp
  from aggregate_tolerates_failure [OF f1, of sample_store sample_env one_failing] e
  have 1: "\<exists>m. getESPLists sample_env one_failing sample_store (Some ''getresponse'')
            = (Inl (AppError m 404 ''NO_INTEGRATIONS''), 0)"
    by blast
  have t: "with_provider (active_mailchimp)
             [(''id'', JStr ''l1''), (''name'', JStr ''News''), (''memberCount'', JNum 0),
              (''subscribeUrlLong'', JUndefined), (''dateCreated'', JUndefined)]
           = [(''id'', JStr ''l1''), (''name'', JStr ''News''),
              (''memberCount'', JNum 0), (''subscribeUrlLong'', JUndefined),
              (''dateCreated'', JUndefined), (''provider'', JStr ''mailchimp''),
              (''integrationId'', JNum 1)]"
    "error_marker (active_getresponse)
           = [(''provider'', JStr ''getresponse''), (''integrationId'', JNum 3),
              (''error'', JStr ''Failed to fetch lists from this provider'')]"
    by (simp_all add: with_provider_def error_marker_def active_mailchimp_def
        active_getresponse_def)
  from aggregate_tolerates_failure [OF f2, of two_active_store sample_env one_failing] ne
  have "\<exists>resp n. getESPLists sample_env one_failing two_active_store None = (Inr resp, n)
         \<and> res_status resp = 200
         \<and> member (member (res_body resp) ''data'') ''lists''
             = JArr (map JObj (concat (map
                       (\<lambda>i. case fst (lists_of one_failing i) of
                               Inl e \<Rightarrow> [error_marker i]
                             | Inr ls \<Rightarrow> map (with_provider i) ls)
                       (find_active two_active_store None))))"
    by blast
  then have 2: "\<exists>resp n. getESPLists sample_env one_failing two_active_store None = (Inr resp, n)
         \<and> res_status resp = 200
         \<and> member (member (res_body resp) ''data'') ''lists''
             = JArr [JObj [(''id'', JStr ''l1''), (''name'', JStr ''News''),
                           (''memberCount'', JNum 0), (''subscribeUrlLong'', JUndefined),
                           (''dateCreated'', JUndefined), (''provider'', JStr ''mailchimp''),
                           (''integrationId'', JNum 1)],
                     JObj [(''provider'', JStr ''getresponse''), (''integrationId'', JNum 3),
                           (''error'', JStr ''Failed to fetch lists from this provider'')]]"
    by (simp add: sample_find_active sample_lists_of t)
  from e ne 1 2 show ?thesis by blast
qed

text \<open>
  C10. In every answer of the list fetch, \<open>totalCount\<close> is the length of \<open>lists\<close>, and
  that length is the number of mailing lists that were fetched plus the number of
  integrations whose \<open>getLists\<close> threw, each of which stands in \<open>lists\<close> as one error
  marker.
\<close>

theorem totalCount_counts_markers:
  assumes "getESPLists ev cs st q = (Inr resp, n)"
  shows "\<exists>entries. member (member (res_body resp) ''data'') ''lists'' = JArr entries
           \<and> member (member (res_body resp) ''data'') ''totalCount'' = JNum (int (length entries))
           \<and> length entries
               = sum_list (map (\<lambda>i. case fst (lists_of cs i) of
                                       Inl e \<Rightarrow> 0 | Inr ls \<Rightarrow> length ls)
                             (find_active st (provider_filter q)))
                 + length (filter (\<lambda>i. isl (fst (lists_of cs i)))
                             (find_active st (provider_filter q)))"
proof -
  let ?ints = "find_active st (provider_filter q)"
  have len: "length (concat (map (pushed cs) ints))
               = sum_list (map (\<lambda>i. case fst (lists_of cs i) of
                                       Inl e \<Rightarrow> 0 | Inr ls \<Rightarrow> length ls) ints)
                 + length (filter (\<lambda>i. isl (fst (lists_of cs i))) ints)" for ints
    by (induction ints) (auto simp: pushed_cases split: sum.splits)
  from assms have "res_body resp = envelope (now ev) (lists_data (concat (map (pushed cs) ?ints)))"
    by (auto simp: getESPLists_def Let_def fetch_loop_eq split: if_splits)
  then show ?thesis
    using len [of ?ints] by (simp add: member_envelope_data lists_data_def)
qed

theorem totalCount_counts_markers_witness:
  "\<exists>resp n. getESPLists sample_env one_failing two_active_store None = (Inr resp, n)
     \<and> member (member (res_body resp) ''data'') ''totalCount'' = JNum 2"
proof -
  have ne: "find_active two_active_store None \<noteq> []"
    by (simp add: sample_find_active)
  have "(None :: string option) = None \<or> None = Some ''mailchimp''
            \<or> None = Some ''getresponse''"
    by simp
  from getESPLists_nonempty [OF this ne, of sample_env one_failing]
  obtain resp n where r: "getESPLists sample_env one_failing two_active_store None = (Inr resp, n)"
    by blast
  have "provider_filter None = None"
    by (simp add: provider_filter_def)
  with totalCount_counts_markers [OF r]
  have "member (member (res_body resp) ''data'') ''totalCount'' = JNum 2"
    by (auto simp: sample_find_active sample_lists_of)
  with r show ?thesis by blast
qed

section \<open>The key stays inside\<close>

lemma validation_info_keys:
  assumes "validateConnection s c = Inr v"
  shows "''apiKey'' \<notin> set (keys_of (opt_json (map_option JObj (accountInfo v))))"
proof -
  have m: "mailchimp_validateConnection c = Inr v \<Longrightarrow> ?thesis"
    by (cases "c 0"; cases "nullish (data (case c 0 of Fulfilled r \<Rightarrow> r))")
       (auto simp: mailchimp_validateConnection_def mailchimp_get_def get_prop_def
          validation_failed_def opt_json_def)
  have g: "getresponse_validateConnection c = Inr v \<Longrightarrow> ?thesis"
    by (cases "c 0"; cases "nullish (data (case c 0 of Fulfilled r \<Rightarrow> r))")
       (auto simp: getresponse_validateConnection_def getresponse_get_def get_prop_def
          validation_failed_def opt_json_def)
  from assms m g show ?thesis
    by (cases s) (simp_all add: validateConnection_def)
qed

lemma create_reply_body:
  assumes "reply (createESPIntegration ev c st p k) = Inr resp"
  shows "\<exists>i s v. res_body resp = envelope (now ev) (create_data i v)
           \<and> validateConnection s c = Inr v"
  using assms unfolding createESPIntegration_def createESPIntegration_steps_def
  by (auto simp: Let_def split: sum.splits if_splits option.splits) blast+

lemma test_reply_body:
  assumes "reply (testIntegration ev c st i) = Inr resp"
  shows "\<exists>s v t. res_body resp = envelope (now ev) (test_data v t)
           \<and> validateConnection s c = Inr v"
  using assms unfolding testIntegration_def
  by (auto split: sum.splits if_splits option.splits) blast+

lemma toJSON_no_apiKey: "''apiKey'' \<notin> set (map fst (toJSON r))"
  by (auto simp: toJSON_def delete_prop_def)

lemma toJSON_unselect_apiKey: "toJSON (unselect (r\<lparr>apiKey := x\<rparr>)) = toJSON (unselect r)"
  by (simp add: toJSON_def toObject_def unselect_def)

lemma find_active_apiKey:
  "find_active (map (\<lambda>r. r\<lparr>apiKey := g r\<rparr>) st) f = map (\<lambda>r. r\<lparr>apiKey := g r\<rparr>) (find_active st f)"
  by (induction st) (auto simp: find_active_def split: option.splits)

text \<open>
  C9. No answer to a caller has a property \<open>apiKey\<close>: not the \<open>data\<close> of the answer to
  a create-or-verify submission or to a re-test, nor the account information inside it,
  nor any record of the listing of active records. The \<open>toJSON\<close> transform drops the
  property from every document, also from one that was loaded with it; a document from
  \<open>findOne\<close> without the explicit selection has no key; and the listing is the same
  whatever keys the collection holds.
\<close>

theorem apiKey_never_serialized:
  "(\<forall>resp. reply (createESPIntegration ev c st p k) = Inr resp \<longrightarrow>
       ''apiKey'' \<notin> set (keys_of (member (res_body resp) ''data''))
       \<and> ''apiKey'' \<notin> set (keys_of (member (member (res_body resp) ''data'') ''accountInfo'')))
   \<and> (\<forall>resp. reply (testIntegration ev c st i) = Inr resp \<longrightarrow>
       ''apiKey'' \<notin> set (keys_of (member (res_body resp) ''data''))
       \<and> ''apiKey'' \<notin> set (keys_of (member (member (res_body resp) ''data'') ''accountInfo'')))
   \<and> (\<exists>docs. member (member (res_body (getIntegrations ev st)) ''data'') ''integrations''
                = JArr docs
         \<and> length docs = length (filter isActive st)
         \<and> (\<forall>d \<in> set docs. ''apiKey'' \<notin> set (keys_of d)))
   \<and> ''apiKey'' \<notin> set (map fst (toJSON r))
   \<and> (\<forall>e. findOne_active st p = Some e \<longrightarrow> apiKey e = None)
   \<and> getIntegrations ev (map (\<lambda>r. r\<lparr>apiKey := g r\<rparr>) st) = getIntegrations ev st"
proof (intro conjI allI impI)
  fix resp
  assume "reply (createESPIntegration ev c st p k) = Inr resp"
  then obtain i s v where b: "res_body resp = envelope (now ev) (create_data i v)"
    and v: "validateConnection s c = Inr v"
    using create_reply_body by blast
  from b show "''apiKey'' \<notin> set (keys_of (member (res_body resp) ''data''))"
    by (simp add: member_envelope_data create_data_def)
  from b validation_info_keys [OF v]
  show "''apiKey'' \<notin> set (keys_of (member (member (res_body resp) ''data'') ''accountInfo''))"
    by (simp add: member_envelope_data create_data_def)
next
  fix resp
  assume "reply (testIntegration ev c st i) = Inr resp"
  then obtain s v t where b: "res_body resp = envelope (now ev) (test_data v t)"
    and v: "validateConnection s c = Inr v"
    using test_reply_body by blast
  from b show "''apiKey'' \<notin> set (keys_of (member (res_body resp) ''data''))"
    by (simp add: member_envelope_data test_data_def)
  from b validation_info_keys [OF v]
  show "''apiKey'' \<notin> set (keys_of (member (member (res_body resp) ''data'') ''accountInfo''))"
    by (simp add: member_envelope_data test_data_def)
next
  show "\<exists>docs. member (member (res_body (getIntegrations ev st)) ''data'') ''integrations''
                = JArr docs
         \<and> length docs = length (filter isActive st)
         \<and> (\<forall>d \<in> set docs. ''apiKey'' \<notin> set (keys_of d))"
    using toJSON_no_apiKey
    by (auto simp: getIntegrations_def Let_def member_envelope_data find_active_def)
next
  show "''apiKey'' \<notin> set (map fst (toJSON r))"
    by (rule toJSON_no_apiKey)
next
  fix e
  assume "findOne_active st p = Some e"
  then show "apiKey e = None"
    by (auto simp: findOne_active_def unselect_def)
next
  show "getIntegrations ev (map (\<lambda>r. r\<lparr>apiKey := g r\<rparr>) st) = getIntegrations ev st"
    by (simp add: getIntegrations_def Let_def find_active_apiKey comp_def
        toJSON_unselect_apiKey)
qed

theorem apiKey_never_serialized_witness:
  "(\<exists>resp. reply (createESPIntegration sample_env account_client sample_store
               ''mailchimp'' valid_mailchimp_key) = Inr resp
       \<and> ''apiKey'' \<notin> set (keys_of (member (res_body resp) ''data'')))
   \<and> (\<exists>e. findOne_active sample_store ''mailchimp'' = Some e \<and> apiKey e = None)
   \<and> (\<exists>docs. member (member (res_body (getIntegrations sample_env sample_store)) ''data'')
                ''integrations'' = JArr docs
         \<and> length docs = 1
         \<and> (\<forall>d \<in> set docs. ''apiKey'' \<notin> set (keys_of d)))"
proof -
  obtain resp where r: "reply (createESPIntegration sample_env account_client sample_store
               ''mailchimp'' valid_mailchimp_key) = Inr resp"
    using sample_create_mailchimp by blast
  obtain e where e: "findOne_active sample_store ''mailchimp'' = Some e"
    by (simp add: findOne_active_def sample_store_def)
  have l: "length (filter isActive sample_store) = 1"
    by (simp add: sample_store_def)
  note t = apiKey_never_serialized [of sample_env account_client sample_store
      "''mailchimp''" valid_mailchimp_key id_1 "sample_store ! 0" "\<lambda>r. None"]
  from t r have 1: "''apiKey'' \<notin> set (keys_of (member (res_body resp) ''data''))"
    by blast
  from t e have 2: "apiKey e = None"
    by blast
  from t l have 3: "\<exists>docs. member (member (res_body (getIntegrations sample_env sample_store)) ''data'')
                ''integrations'' = JArr docs
         \<and> length docs = 1
         \<and> (\<forall>d \<in> set docs. ''apiKey'' \<notin> set (keys_of d))"
    by simp
  from r e 1 2 3 show ?thesis by blast
qed

end
